theory Spec2Isabelle
  imports Main
begin

section \<open>JavaScript values\<close>

text \<open>
  An optional, nullable property of a JavaScript object: \<open>undefined\<close> (also: the
  property is missing), \<open>null\<close>, or a value. A string is truthy when it is present
  and not empty.
\<close>

datatype 'a js = Undefined | Null | Val 'a

fun truthy :: "string js \<Rightarrow> bool" where
  "truthy (Val s) = (s \<noteq> [])"
| "truthy _ = False"

text \<open>\<open>x || null\<close> on a string property.\<close>

definition orNull :: "string js \<Rightarrow> string js" where
  "orNull x = (if truthy x then x else Null)"

section \<open>Credentials sign-in: auth-options.ts\<close>

datatype Role = Organizer | Vendor

text \<open>The \<open>credentials\<close> argument of \<open>authorize\<close>; the argument itself may be undefined.\<close>

record Credentials =
  c_email :: "string js"
  c_password :: "string js"

text \<open>The document \<open>User.findOne(...).lean()\<close> resolves to; \<open>db_id\<close> is its \<open>_id\<close>.\<close>

record 'oid DbUser =
  db_id :: 'oid
  db_name :: "string js"
  db_email :: "string js"
  db_password :: "string js"
  db_role :: "Role js"
  db_profileComplete :: "bool js"
  db_profilePicture :: "string js"

text \<open>The user object of next-auth, as the module declaration of the file extends it.\<close>

record User =
  u_id :: "string js"
  u_name :: "string js"
  u_email :: "string js"
  u_role :: "Role js"
  u_profileComplete :: "bool js"
  u_image :: "string js"

text \<open>
  What \<open>authorize\<close> calls inside its \<open>try\<close> block: \<open>dbConnect()\<close>,
  \<open>User.findOne({ email }).lean()\<close>, \<open>bcrypt.compare(password, hash)\<close> and
  \<open>_id.toString()\<close>. Each may raise: \<open>Inl\<close> carries the error.
\<close>

record 'oid AuthEnv =
  dbConnect :: "string + unit"
  findOne :: "string \<Rightarrow> string + 'oid DbUser option"
  compare :: "string \<Rightarrow> string js \<Rightarrow> string + bool"
  toString :: "'oid \<Rightarrow> string + string"

text \<open>\<open>!credentials?.email || !credentials.password\<close>\<close>

definition credentialsMissing :: "Credentials option \<Rightarrow> bool" where
  "credentialsMissing credentials =
     (case credentials of
        None \<Rightarrow> True
      | Some c \<Rightarrow> \<not> truthy (c_email c) \<or> \<not> truthy (c_password c))"

text \<open>
  The body of the \<open>try\<close> block: \<open>Inl\<close> is an exception raised inside it,
  \<open>Inr None\<close> is \<open>return null\<close>.
\<close>

definition authorize_try ::
  "'oid AuthEnv \<Rightarrow> Credentials option \<Rightarrow> string + User option" where
  "authorize_try env credentials =
     (if credentialsMissing credentials then Inr None
      else
        (case credentials of
           None \<Rightarrow> Inr None
         | Some c \<Rightarrow>
            (case (c_email c, c_password c) of
               (Val email, Val password) \<Rightarrow>
                 (case dbConnect env of
                    Inl e \<Rightarrow> Inl e
                  | Inr _ \<Rightarrow>
                     (case findOne env email of
                        Inl e \<Rightarrow> Inl e
                      | Inr None \<Rightarrow> Inr None
                      | Inr (Some dbUser) \<Rightarrow>
                         (case compare env password (db_password dbUser) of
                            Inl e \<Rightarrow> Inl e
                          | Inr isValid \<Rightarrow>
                             if \<not> isValid then Inr None
                             else
                               (case toString env (db_id dbUser) of
                                  Inl e \<Rightarrow> Inl e
                                | Inr rendered \<Rightarrow>
                                    Inr (Some
                                      \<lparr> u_id = Val rendered,
                                        u_name = db_name dbUser,
                                        u_email = db_email dbUser,
                                        u_role = db_role dbUser,
                                        u_profileComplete = db_profileComplete dbUser,
                                        u_image = orNull (db_profilePicture dbUser) \<rparr>)))))
             | _ \<Rightarrow> Inr None)))"

text \<open>
  \<open>authorize\<close>: the \<open>try\<close> block under its \<open>catch\<close>, which logs and returns null.
  The first component is what was written with \<open>console.error\<close>; the second is the
  outcome, \<open>Inl\<close> for an exception that leaves the function.
\<close>

definition authorize ::
  "'oid AuthEnv \<Rightarrow> Credentials option \<Rightarrow> string list \<times> (string + User option)" where
  "authorize env credentials =
     (case authorize_try env credentials of
        Inl e \<Rightarrow> ([''Authorization Error: '' @ e], Inr None)
      | Inr r \<Rightarrow> ([], Inr r))"

subsection \<open>The jwt and session callbacks\<close>

text \<open>
  A token and a session are objects with more properties than the callbacks touch;
  the records are extensible, and the rest of an object is its \<open>more\<close> part.
\<close>

record JWT =
  t_id :: "string js"
  t_role :: "Role js"
  t_profileComplete :: "bool js"

record SessionUser =
  s_id :: "string js"
  s_name :: "string js"
  s_email :: "string js"
  s_image :: "string js"
  s_role :: "Role js"
  s_profileComplete :: "bool js"

record 'x Session =
  user :: "'x SessionUser_scheme option"

definition jwt :: "'t JWT_scheme \<Rightarrow> User option \<Rightarrow> 't JWT_scheme" where
  "jwt token usr =
     (case usr of
        None \<Rightarrow> token
      | Some u \<Rightarrow>
          token\<lparr> t_id := u_id u, t_role := u_role u,
                 t_profileComplete := u_profileComplete u \<rparr>)"

definition session ::
  "('x, 'y) Session_scheme option \<Rightarrow> 't JWT_scheme \<Rightarrow> ('x, 'y) Session_scheme option" where
  "session sess token =
     (case sess of
        None \<Rightarrow> None
      | Some s \<Rightarrow>
         (case user s of
            None \<Rightarrow> Some s
          | Some u \<Rightarrow>
              Some (s\<lparr> user := Some (u\<lparr> s_id := t_id token, s_role := t_role token,
                                         s_profileComplete := t_profileComplete token \<rparr>) \<rparr>)))"

section \<open>The event preview: EventPreview.tsx\<close>

text \<open>
  The \<open>Event\<close> type is imported from a file that is not among the sources; the
  record has the properties of it that matter here, and the rest is its \<open>more\<close> part.
\<close>

datatype EventStatus = Draft | Published | Closed

record Event =
  title :: string
  status :: EventStatus
  configurationComplete :: bool
  numberOfStalls :: nat

text \<open>The component's state: the four \<open>useState\<close> cells.\<close>

record 'e PreviewState =
  event :: "'e Event_scheme option"
  isLoading :: bool
  error :: "string option"
  isPublishing :: bool

text \<open>What a \<open>throw\<close> carries: an \<open>Error\<close> with its message, or something else.\<close>

datatype thrown = ErrorObj string | NonError

text \<open>
  The server's side of \<open>fetch\<close>: the call rejects, or resolves to a response with its
  \<open>ok\<close> flag and what \<open>response.json()\<close> gives, which rejects or resolves to an
  object whose \<open>error\<close> property is a string when present.
\<close>

datatype jsonResult = JsonRejects thrown | JsonData "string js"

datatype fetchResult = FetchRejects thrown | Response bool jsonResult

record request =
  req_method :: string
  req_url :: string

text \<open>
  A run of \<open>handlePublish\<close>: the component's state after it, the requests it sent
  and the routes it pushed.
\<close>

record 'e PublishRun =
  component :: "'e PreviewState"
  requests :: "request list"
  pushed :: "string list"

text \<open>\<open>event?.configurationComplete\<close>\<close>

definition eventConfigurationComplete :: "'e Event_scheme option \<Rightarrow> bool" where
  "eventConfigurationComplete ev =
     (case ev of None \<Rightarrow> False | Some e \<Rightarrow> configurationComplete e)"

text \<open>\<open>x || d\<close> on a string property and a default.\<close>

fun orElse :: "string js \<Rightarrow> string \<Rightarrow> string" where
  "orElse (Val s) d = (if s = [] then d else s)"
| "orElse _ d = d"

text \<open>
  The \<open>try\<close> block of \<open>handlePublish\<close>: the requests sent, the routes pushed, and
  what was thrown, if anything. \<open>reply\<close> is what the server does with the request and
  is read only once the request is sent.
\<close>

definition publish_try ::
  "string \<Rightarrow> fetchResult \<Rightarrow> 'e Event_scheme option
     \<Rightarrow> request list \<times> string list \<times> thrown option" where
  "publish_try eventId reply ev =
     (if \<not> eventConfigurationComplete ev
      then ([], [], Some (ErrorObj ''Please complete stall configuration before publishing''))
      else
        (let req = \<lparr> req_method = ''POST'', req_url = ''/api/events/'' @ eventId @ ''/publish'' \<rparr>
         in case reply of
              FetchRejects t \<Rightarrow> ([req], [], Some t)
            | Response ok body \<Rightarrow>
                if \<not> ok then
                  (case body of
                     JsonRejects t \<Rightarrow> ([req], [], Some t)
                   | JsonData err \<Rightarrow>
                       ([req], [], Some (ErrorObj (orElse err ''Failed to publish event''))))
                else ([req], [''/dashboard/events''], None)))"

text \<open>
  \<open>handlePublish\<close>: the \<open>try\<close> block, the \<open>catch\<close> that stores the message, and the
  \<open>finally\<close> that clears \<open>isPublishing\<close>.
\<close>

definition handlePublish ::
  "string \<Rightarrow> fetchResult \<Rightarrow> 'e PreviewState \<Rightarrow> 'e PublishRun" where
  "handlePublish eventId reply st =
     (case publish_try eventId reply (event st) of
        (reqs, pushes, raised) \<Rightarrow>
          (let caught =
                 (case raised of
                    None \<Rightarrow> st
                  | Some (ErrorObj message) \<Rightarrow> st\<lparr> error := Some message \<rparr>
                  | Some NonError \<Rightarrow> st\<lparr> error := Some ''Failed to publish event'' \<rparr>)
           in \<lparr> component = caught\<lparr> isPublishing := False \<rparr>,
                requests = reqs, pushed = pushes \<rparr>))"

text \<open>
  The "Publish Event" button as the component renders it: none while loading, on an
  error, without an event, or for a visitor who is not the organizer.
\<close>

record Button =
  label :: string
  disabled :: bool

definition publishButton :: "bool \<Rightarrow> 'e PreviewState \<Rightarrow> Button option" where
  "publishButton isOrganizer st =
     (if isLoading st then None
      else if (case error st of None \<Rightarrow> False | Some m \<Rightarrow> m \<noteq> []) then None
      else
        (case event st of
           None \<Rightarrow> None
         | Some e \<Rightarrow>
             if isOrganizer
             then Some \<lparr> label = (if isPublishing st then ''Publishing...'' else ''Publish Event''),
                         disabled = (\<not> configurationComplete e \<or> isPublishing st) \<rparr>
             else None))"

section \<open>The reservation engine of the specification\<close>

text \<open>
  The sources hold no code of the Layout Store, the Reservation Ledger or the Booking
  Coordinator, and of the Publication Gate only the check \<open>handlePublish\<close> makes.
  What follows is written from the specification's sections 3 and 4.
\<close>

text \<open>Modelled from the spec: the states of a ReservationRecord (section 3).\<close>

datatype ReservationState = Available | Held | Confirmed | Released

text \<open>
  Modelled from the spec: the ReservationRecord of section 3. Identities are numbers,
  times are seconds.
\<close>

record ReservationRecord =
  stallId :: nat
  state :: ReservationState
  holderId :: "nat option"
  heldAt :: "nat option"
  expiresAt :: "nat option"
  confirmedAt :: "nat option"
  version :: nat

text \<open>
  Modelled from the spec: the Stall of section 3, without its geometry, which no
  operation below reads.
\<close>

record Stall =
  st_id :: nat
  st_eventId :: nat
  st_stallNumber :: nat
  st_category :: string
  st_price :: nat

text \<open>Modelled from the spec: the failures of the Ledger (section 4.2).\<close>

datatype LedgerError = StateMismatch | VersionConflict | NotFound

text \<open>Modelled from the spec: the failures of the Booking Coordinator (section 4.4).\<close>

datatype BookingError =
  EventNotPublished | AlreadyTaken | HoldExpired | NotHolder | PaymentFailed
  | VendorHoldLimitExceeded

text \<open>
  Modelled from the spec: \<open>getStalls\<close> of the Layout Store (section 4.1), the stalls
  of an event ordered by stallNumber. The layout is the list of all stalls.
\<close>

definition getStalls :: "Stall list \<Rightarrow> nat \<Rightarrow> Stall list" where
  "getStalls layout eventId =
     sort_key st_stallNumber (filter (\<lambda>s. st_eventId s = eventId) layout)"

text \<open>
  Modelled from the spec: the record a stall gets when its event publishes
  ("created as available when the event publishes", section 3).
\<close>

definition availableRecord :: "nat \<Rightarrow> ReservationRecord" where
  "availableRecord sid =
     \<lparr> stallId = sid, state = Available, holderId = None, heldAt = None,
       expiresAt = None, confirmedAt = None, version = 0 \<rparr>"


text \<open>Modelled from the spec: reading the Ledger's record of a stall.\<close>

definition lookupRecord :: "ReservationRecord list \<Rightarrow> nat \<Rightarrow> ReservationRecord option" where
  "lookupRecord ledger sid = find (\<lambda>r. stallId r = sid) ledger"

text \<open>Modelled from the spec: writing a stall's record back to the Ledger.\<close>

definition storeRecord ::
  "ReservationRecord list \<Rightarrow> ReservationRecord \<Rightarrow> ReservationRecord list" where
  "storeRecord ledger r' = map (\<lambda>r. if stallId r = stallId r' then r' else r) ledger"

text \<open>
  Modelled from the spec: the transitions of section 4.2 and their effects, after the
  state machine drawn there (a held stall goes back to available). \<open>None\<close> is a
  transition the Ledger does not allow.
\<close>

definition transition ::
  "nat \<Rightarrow> ReservationRecord \<Rightarrow> ReservationState \<Rightarrow> nat \<Rightarrow> nat \<Rightarrow> ReservationRecord option" where
  "transition ttl r newState holder now =
     (case (state r, newState) of
        (Available, Held) \<Rightarrow>
          Some (r\<lparr> state := Held, holderId := Some holder, heldAt := Some now,
                   expiresAt := Some (now + ttl), version := Suc (version r) \<rparr>)
      | (Held, Confirmed) \<Rightarrow>
          if holderId r = Some holder
          then Some (r\<lparr> state := Confirmed, confirmedAt := Some now,
                        version := Suc (version r) \<rparr>)
          else None
      | (Held, Available) \<Rightarrow>
          Some (r\<lparr> state := Available, holderId := None, version := Suc (version r) \<rparr>)
      | (Confirmed, Available) \<Rightarrow>
          Some (r\<lparr> state := Available, holderId := None, version := Suc (version r) \<rparr>)
      | _ \<Rightarrow> None)"

text \<open>
  Modelled from the spec: \<open>tryTransition\<close> of the Ledger (section 4.2). The spec's
  signature has no argument for "the caller's last-known version"; it is the last
  argument here. The spec names no failure for a transition that is not allowed;
  \<open>StateMismatch\<close> stands for it. \<open>ttl\<close> is HOLD_TTL.
\<close>

definition tryTransition ::
  "nat \<Rightarrow> ReservationRecord list \<Rightarrow> nat \<Rightarrow> ReservationState \<Rightarrow> ReservationState
     \<Rightarrow> nat \<Rightarrow> nat \<Rightarrow> nat \<Rightarrow> LedgerError + ReservationRecord \<times> ReservationRecord list" where
  "tryTransition ttl ledger sid expectedState newState holder now known =
     (case lookupRecord ledger sid of
        None \<Rightarrow> Inl NotFound
      | Some r \<Rightarrow>
          if state r \<noteq> expectedState then Inl StateMismatch
          else if version r \<noteq> known then Inl VersionConflict
          else
            (case transition ttl r newState holder now of
               None \<Rightarrow> Inl StateMismatch
             | Some r' \<Rightarrow> Inr (r', storeRecord ledger r')))"

text \<open>
  Modelled from the spec: what the Booking Coordinator is configured with and talks
  to: HOLD_TTL, the Layout Store's price of a stall, and the payment collaborator's
  \<open>confirm(paymentReference, amount)\<close>, true when the payment is confirmed.
\<close>

record BookingEnv =
  holdTtl :: nat
  priceOf :: "nat \<Rightarrow> nat"
  pay :: "string \<Rightarrow> nat \<Rightarrow> bool"

text \<open>
  Modelled from the spec: a run of \<open>confirmHold\<close>: its result, the Ledger after it,
  and the calls it made to the payment collaborator.
\<close>

record ConfirmRun =
  outcome :: "BookingError + ReservationRecord"
  ledgerAfter :: "ReservationRecord list"
  paymentCalls :: "(string \<times> nat) list"

text \<open>
  Modelled from the spec: \<open>confirmHold\<close> of the Booking Coordinator (section 4.4).
  It verifies that the hold is the vendor's and has not expired (a hold is expired
  once expiresAt \<open>\<le>\<close> now, as the Sweeper has it), asks the payment collaborator, and
  then confirms the record or, on a failed payment, releases it. The spec names no
  result for a confirmation the Ledger refuses; \<open>HoldExpired\<close> stands for it.
\<close>

definition confirmHold ::
  "BookingEnv \<Rightarrow> ReservationRecord list \<Rightarrow> nat \<Rightarrow> nat \<Rightarrow> string \<Rightarrow> nat \<Rightarrow> ConfirmRun" where
  "confirmHold env ledger sid vendorId paymentReference now =
     (case lookupRecord ledger sid of
        None \<Rightarrow> \<lparr> outcome = Inl NotHolder, ledgerAfter = ledger, paymentCalls = [] \<rparr>
      | Some r \<Rightarrow>
          if state r \<noteq> Held \<or> holderId r \<noteq> Some vendorId
          then \<lparr> outcome = Inl NotHolder, ledgerAfter = ledger, paymentCalls = [] \<rparr>
          else if (case expiresAt r of None \<Rightarrow> True | Some t \<Rightarrow> t \<le> now)
          then \<lparr> outcome = Inl HoldExpired, ledgerAfter = ledger, paymentCalls = [] \<rparr>
          else
            (let amount = priceOf env sid;
                 calls = [(paymentReference, amount)]
             in if pay env paymentReference amount
                then
                  (case tryTransition (holdTtl env) ledger sid Held Confirmed vendorId now (version r) of
                     Inl e \<Rightarrow> \<lparr> outcome = Inl HoldExpired, ledgerAfter = ledger, paymentCalls = calls \<rparr>
                   | Inr (r', ledger') \<Rightarrow>
                       \<lparr> outcome = Inr r', ledgerAfter = ledger', paymentCalls = calls \<rparr>)
                else
                  (case tryTransition (holdTtl env) ledger sid Held Available vendorId now (version r) of
                     Inl e \<Rightarrow> \<lparr> outcome = Inl PaymentFailed, ledgerAfter = ledger, paymentCalls = calls \<rparr>
                   | Inr (r', ledger') \<Rightarrow>
                       \<lparr> outcome = Inl PaymentFailed, ledgerAfter = ledger', paymentCalls = calls \<rparr>)))"

subsection \<open>Holds requested concurrently\<close>

text \<open>
  Modelled from the spec: what \<open>requestHold\<close> is configured with: the Publication
  Gate's answer whether an event is published, and the number of holds a vendor may
  have outstanding in one event (sections 3 and 4.4).
\<close>

record HoldPolicy =
  eventPublished :: "nat \<Rightarrow> bool"
  holdLimit :: nat

text \<open>Modelled from the spec: the arguments of a call \<open>requestHold(eventId, stallId, vendorId)\<close>.\<close>

record HoldRequest =
  rq_eventId :: nat
  rq_stallId :: nat
  rq_vendorId :: nat

text \<open>
  Modelled from the spec: the Hold of section 3, a view of a held record: its stall,
  holder and expiry as the record has them.
\<close>

record Hold =
  hold_stallId :: nat
  hold_holderId :: "nat option"
  hold_expiresAt :: "nat option"

text \<open>
  Modelled from the spec: the holds a vendor has outstanding in an event: the held
  records of the event's stalls whose holder is the vendor.
\<close>

definition outstandingHolds ::
  "Stall list \<Rightarrow> ReservationRecord list \<Rightarrow> nat \<Rightarrow> nat \<Rightarrow> nat" where
  "outstandingHolds layout ledger eventId vendorId =
     length (filter (\<lambda>r. state r = Held \<and> holderId r = Some vendorId
                          \<and> stallId r \<in> set (map st_id (getStalls layout eventId))) ledger)"

text \<open>
  Modelled from the spec: the first half of \<open>requestHold\<close> (section 4.4): the event
  must be published, the vendor must be under the hold limit, and the stall's record
  is read; its version is the caller's last-known version (\<open>None\<close> when the stall
  has no record).
\<close>

definition requestHold_check ::
  "HoldPolicy \<Rightarrow> Stall list \<Rightarrow> ReservationRecord list \<Rightarrow> HoldRequest
     \<Rightarrow> BookingError + nat option" where
  "requestHold_check policy layout ledger rq =
     (if \<not> eventPublished policy (rq_eventId rq) then Inl EventNotPublished
      else if holdLimit policy \<le> outstandingHolds layout ledger (rq_eventId rq) (rq_vendorId rq)
      then Inl VendorHoldLimitExceeded
      else Inr (map_option version (lookupRecord ledger (rq_stallId rq))))"

text \<open>
  Modelled from the spec: the second half of \<open>requestHold\<close>: the Ledger's
  \<open>tryTransition\<close> from available to held. On success the Hold is returned; on
  \<open>StateMismatch\<close> the result is \<open>AlreadyTaken\<close>. The spec names no result for
  the Ledger's other two failures: \<open>VersionConflict\<close> (another writer won) gives
  \<open>AlreadyTaken\<close> too, and a stall without a record gives \<open>EventNotPublished\<close>,
  records being created when the event publishes.
\<close>

definition requestHold_transition ::
  "nat \<Rightarrow> ReservationRecord list \<Rightarrow> HoldRequest \<Rightarrow> nat option \<Rightarrow> nat
     \<Rightarrow> (BookingError + Hold) \<times> ReservationRecord list" where
  "requestHold_transition ttl ledger rq known now =
     (case known of
        None \<Rightarrow> (Inl EventNotPublished, ledger)
      | Some v \<Rightarrow>
         (case tryTransition ttl ledger (rq_stallId rq) Available Held (rq_vendorId rq) now v of
            Inr (r', ledger') \<Rightarrow>
              (Inr \<lparr> hold_stallId = stallId r', hold_holderId = holderId r',
                     hold_expiresAt = expiresAt r' \<rparr>, ledger')
          | Inl StateMismatch \<Rightarrow> (Inl AlreadyTaken, ledger)
          | Inl VersionConflict \<Rightarrow> (Inl AlreadyTaken, ledger)
          | Inl NotFound \<Rightarrow> (Inl EventNotPublished, ledger)))"

text \<open>
  Modelled from the spec: \<open>requestHold\<close> of the Booking Coordinator (section 4.4),
  when nothing runs between its two halves.
\<close>

definition requestHold ::
  "HoldPolicy \<Rightarrow> nat \<Rightarrow> Stall list \<Rightarrow> ReservationRecord list \<Rightarrow> HoldRequest \<Rightarrow> nat
     \<Rightarrow> (BookingError + Hold) \<times> ReservationRecord list" where
  "requestHold policy ttl layout ledger rq now =
     (case requestHold_check policy layout ledger rq of
        Inl e \<Rightarrow> (Inl e, ledger)
      | Inr known \<Rightarrow> requestHold_transition ttl ledger rq known now)"

text \<open>
  Modelled from the spec: how far a call of \<open>requestHold\<close> has come: not started,
  past its checks with the version it read, or returned with its result.
\<close>

datatype CallState = Pending | Reading "nat option" | Returned "BookingError + Hold"

text \<open>
  Modelled from the spec: calls running concurrently against one Ledger (section 5):
  the Ledger as it is now, and the state of every call.
\<close>

record Race =
  ledgerNow :: "ReservationRecord list"
  progress :: "CallState list"


text \<open>
  Modelled from the spec: one turn of the scheduler. Call \<open>i\<close> takes its next step
  at time \<open>now\<close>: its checks and read, or its \<open>tryTransition\<close>, each atomic on the
  Ledger as section 5 has it. Other calls may run between the two steps of a call.
  A call that has returned, or a turn for a call that does not exist, changes nothing.
\<close>

definition stepCall ::
  "HoldPolicy \<Rightarrow> nat \<Rightarrow> Stall list \<Rightarrow> HoldRequest list \<Rightarrow> Race \<Rightarrow> nat \<times> nat \<Rightarrow> Race" where
  "stepCall policy ttl layout calls race turn =
     (case turn of (i, now) \<Rightarrow>
        if length calls \<le> i \<or> length (progress race) \<le> i then race
        else
          (case progress race ! i of
             Pending \<Rightarrow>
               (case requestHold_check policy layout (ledgerNow race) (calls ! i) of
                  Inl e \<Rightarrow> race\<lparr> progress := (progress race)[i := Returned (Inl e)] \<rparr>
                | Inr known \<Rightarrow> race\<lparr> progress := (progress race)[i := Reading known] \<rparr>)
           | Reading known \<Rightarrow>
               (case requestHold_transition ttl (ledgerNow race) (calls ! i) known now of
                  (res, ledger') \<Rightarrow>
                    \<lparr> ledgerNow = ledger', progress = (progress race)[i := Returned res] \<rparr>)
           | Returned res \<Rightarrow> race))"

text \<open>Modelled from the spec: a schedule is any list of turns, run in order.\<close>

definition runSchedule ::
  "HoldPolicy \<Rightarrow> nat \<Rightarrow> Stall list \<Rightarrow> HoldRequest list \<Rightarrow> (nat \<times> nat) list \<Rightarrow> Race \<Rightarrow> Race" where
  "runSchedule policy ttl layout calls schedule race =
     foldl (stepCall policy ttl layout calls) race schedule"





section \<open>Sample inputs\<close>

text \<open>Concrete values the definitions are run on.\<close>

text \<open>
  Two stored users: Ann, whose picture is the empty string, and Bob, who has a picture.
  Ids are numbers, rendered as that many letters.
\<close>

definition sampleDbUser :: "nat DbUser" where
  "sampleDbUser =
     \<lparr> db_id = 7, db_name = Val ''Ann'', db_email = Val ''a@b.c'',
       db_password = Val ''hash'', db_role = Val Vendor,
       db_profileComplete = Val True, db_profilePicture = Val [] \<rparr>"

definition sampleDbUser2 :: "nat DbUser" where
  "sampleDbUser2 =
     \<lparr> db_id = 3, db_name = Val ''Bob'', db_email = Val ''b@b.c'',
       db_password = Val ''hash2'', db_role = Val Organizer,
       db_profileComplete = Val False, db_profilePicture = Val ''/img/bob.png'' \<rparr>"

definition sampleEnv :: "nat AuthEnv" where
  "sampleEnv =
     \<lparr> dbConnect = Inr (),
       findOne = (\<lambda>e. if e = ''a@b.c'' then Inr (Some sampleDbUser)
                       else if e = ''b@b.c'' then Inr (Some sampleDbUser2)
                       else Inr None),
       compare = (\<lambda>p h. Inr ((p = ''pw'' \<and> h = Val ''hash'') \<or> (p = ''pw2'' \<and> h = Val ''hash2''))),
       toString = (\<lambda>n. Inr (replicate n CHR ''f'')) \<rparr>"

text \<open>A draft event whose configuration is complete and which has no stall.\<close>

definition sampleEvent :: Event where
  "sampleEvent =
     \<lparr> title = ''Fair'', status = Draft, configurationComplete = True, numberOfStalls = 0 \<rparr>"

definition sampleState :: "unit PreviewState" where
  "sampleState =
     \<lparr> event = Some sampleEvent, isLoading = False, error = None, isPublishing = False \<rparr>"


definition sampleLedger :: "ReservationRecord list" where
  "sampleLedger =
     [ \<lparr> stallId = 1, state = Held, holderId = Some 5, heldAt = Some 100,
         expiresAt = Some 400, confirmedAt = None, version = 1 \<rparr>,
       availableRecord 2 ]"

definition sampleBookingEnv :: BookingEnv where
  "sampleBookingEnv = \<lparr> holdTtl = 300, priceOf = (\<lambda>sid. 50), pay = (\<lambda>ref amount. False) \<rparr>"




section \<open>Theorems\<close>

lemma authorize_try_missing:
  "credentialsMissing credentials \<Longrightarrow> authorize_try env credentials = Inr None"
  by (simp add: authorize_try_def)

lemma authorize_try_present:
  assumes "\<not> credentialsMissing credentials"
  obtains c email password where "credentials = Some c"
    and "c_email c = Val email" and "c_password c = Val password"
    and "email \<noteq> []" and "password \<noteq> []"
proof -
  from assms obtain c where c: "credentials = Some c"
    and t: "truthy (c_email c)" "truthy (c_password c)"
    by (auto simp: credentialsMissing_def split: option.splits)
  from t obtain email password where
    "c_email c = Val email" "c_password c = Val password" "email \<noteq> []" "password \<noteq> []"
    by (cases "c_email c"; cases "c_password c") auto
  with c that show thesis by blast
qed

lemma authorize_try_checked:
  assumes "credentials = Some c" and "c_email c = Val email" and "email \<noteq> []"
    and "c_password c = Val password" and "password \<noteq> []"
  shows "authorize_try env credentials =
     (case dbConnect env of
        Inl e \<Rightarrow> Inl e
      | Inr _ \<Rightarrow>
         (case findOne env email of
            Inl e \<Rightarrow> Inl e
          | Inr None \<Rightarrow> Inr None
          | Inr (Some d) \<Rightarrow>
             (case compare env password (db_password d) of
                Inl e \<Rightarrow> Inl e
              | Inr isValid \<Rightarrow>
                 if \<not> isValid then Inr None
                 else
                   (case toString env (db_id d) of
                      Inl e \<Rightarrow> Inl e
                    | Inr rendered \<Rightarrow>
                        Inr (Some
                          \<lparr> u_id = Val rendered,
                            u_name = db_name d,
                            u_email = db_email d,
                            u_role = db_role d,
                            u_profileComplete = db_profileComplete d,
                            u_image = orNull (db_profilePicture d) \<rparr>)))))"
  using assms by (simp add: authorize_try_def credentialsMissing_def)

lemma orNull_cases:
  "orNull x = (case x of Val p \<Rightarrow> if p = [] then Null else Val p | _ \<Rightarrow> Null)"
  by (cases x) (simp_all add: orNull_def)

lemma authorize_outcome:
  "snd (authorize env credentials)
     = (case authorize_try env credentials of Inl e \<Rightarrow> Inr None | Inr r \<Rightarrow> Inr r)"
  by (simp add: authorize_def split: sum.splits)

lemma authorize_checked:
  assumes "credentials = Some c" and "c_email c = Val email" and "email \<noteq> []"
    and "c_password c = Val password" and "password \<noteq> []"
  shows "snd (authorize env credentials) =
     (case dbConnect env of
        Inl e \<Rightarrow> Inr None
      | Inr _ \<Rightarrow>
         (case findOne env email of
            Inl e \<Rightarrow> Inr None
          | Inr None \<Rightarrow> Inr None
          | Inr (Some d) \<Rightarrow>
             (case compare env password (db_password d) of
                Inl e \<Rightarrow> Inr None
              | Inr isValid \<Rightarrow>
                 if \<not> isValid then Inr None
                 else
                   (case toString env (db_id d) of
                      Inl e \<Rightarrow> Inr None
                    | Inr rendered \<Rightarrow>
                        Inr (Some
                          \<lparr> u_id = Val rendered,
                            u_name = db_name d,
                            u_email = db_email d,
                            u_role = db_role d,
                            u_profileComplete = db_profileComplete d,
                            u_image = orNull (db_profilePicture d) \<rparr>)))))"
  unfolding authorize_outcome authorize_try_checked [OF assms]
  by (simp split: sum.splits option.splits)

text \<open>
  C9. \<open>authorize\<close> returns a user object or null and never throws. It returns null
  when the email or the password is missing, when no user has the email, when the
  password comparison fails, and when anything it calls raises. A login that passes
  every check returns the user: its id is the stored \<open>_id\<close> rendered as a string,
  its name, email, role and profileComplete are the stored ones, and its image is the
  stored profilePicture, or null when that is absent (or, as \<open>||\<close> has it, empty).
  Nothing else returns a user.
\<close>

theorem authorize_user_or_null:
  fixes env :: "'oid AuthEnv"
  shows
  "(\<exists>r. snd (authorize env credentials) = Inr r)
   \<and> (credentialsMissing credentials \<longrightarrow> snd (authorize env credentials) = Inr None)
   \<and> (\<forall>c email. credentials = Some c \<and> c_email c = Val email \<and> findOne env email = Inr None
         \<longrightarrow> snd (authorize env credentials) = Inr None)
   \<and> (\<forall>c email password d. credentials = Some c \<and> c_email c = Val email
         \<and> c_password c = Val password \<and> findOne env email = Inr (Some d)
         \<and> compare env password (db_password d) = Inr False
         \<longrightarrow> snd (authorize env credentials) = Inr None)
   \<and> (\<forall>e. authorize_try env credentials = Inl e \<longrightarrow> snd (authorize env credentials) = Inr None)
   \<and> (\<forall>e. dbConnect env = Inl e \<longrightarrow> snd (authorize env credentials) = Inr None)
   \<and> (\<forall>c email e. credentials = Some c \<and> c_email c = Val email \<and> findOne env email = Inl e
         \<longrightarrow> snd (authorize env credentials) = Inr None)
   \<and> (\<forall>c email password d e. credentials = Some c \<and> c_email c = Val email
         \<and> c_password c = Val password \<and> findOne env email = Inr (Some d)
         \<and> compare env password (db_password d) = Inl e
         \<longrightarrow> snd (authorize env credentials) = Inr None)
   \<and> (\<forall>c email d e. credentials = Some c \<and> c_email c = Val email
         \<and> findOne env email = Inr (Some d) \<and> toString env (db_id d) = Inl e
         \<longrightarrow> snd (authorize env credentials) = Inr None)
   \<and> (\<forall>c email password d rendered. credentials = Some c
         \<and> c_email c = Val email \<and> email \<noteq> []
         \<and> c_password c = Val password \<and> password \<noteq> []
         \<and> dbConnect env = Inr ()
         \<and> findOne env email = Inr (Some d)
         \<and> compare env password (db_password d) = Inr True
         \<and> toString env (db_id d) = Inr rendered
         \<longrightarrow> authorize env credentials =
               ([], Inr (Some
                  \<lparr> u_id = Val rendered,
                    u_name = db_name d,
                    u_email = db_email d,
                    u_role = db_role d,
                    u_profileComplete = db_profileComplete d,
                    u_image = (case db_profilePicture d of
                                 Val p \<Rightarrow> if p = [] then Null else Val p
                               | _ \<Rightarrow> Null) \<rparr>)))
   \<and> (\<forall>u. snd (authorize env credentials) = Inr (Some u) \<longrightarrow>
         (\<exists>c email password d rendered. credentials = Some c \<and> c_email c = Val email
            \<and> c_password c = Val password \<and> email \<noteq> [] \<and> password \<noteq> []
            \<and> dbConnect env = Inr ()
            \<and> findOne env email = Inr (Some d)
            \<and> compare env password (db_password d) = Inr True
            \<and> toString env (db_id d) = Inr rendered
            \<and> u = \<lparr> u_id = Val rendered,
                    u_name = db_name d,
                    u_email = db_email d,
                    u_role = db_role d,
                    u_profileComplete = db_profileComplete d,
                    u_image = (case db_profilePicture d of
                                 Val p \<Rightarrow> if p = [] then Null else Val p
                               | _ \<Rightarrow> Null) \<rparr>))"
proof -
  have p1: "\<exists>r. snd (authorize env credentials) = Inr r"
    by (simp add: authorize_outcome split: sum.splits)
  have p2: "credentialsMissing credentials \<longrightarrow> snd (authorize env credentials) = Inr None"
    by (simp add: authorize_outcome authorize_try_missing)
  have p3: "\<forall>c email. credentials = Some c \<and> c_email c = Val email \<and> findOne env email = Inr None
         \<longrightarrow> snd (authorize env credentials) = Inr None"
  proof (intro allI impI)
    fix c email
    assume a: "credentials = Some c \<and> c_email c = Val email \<and> findOne env email = Inr None"
    show "snd (authorize env credentials) = Inr None"
    proof (cases "credentialsMissing credentials")
      case True
      with p2 show ?thesis by blast
    next
      case False
      then obtain c' email' password where c: "credentials = Some c'" "c_email c' = Val email'"
        "email' \<noteq> []" "c_password c' = Val password" "password \<noteq> []"
        using authorize_try_present [of credentials] by metis
      with a have "findOne env email' = Inr None" by simp
      then show ?thesis
        by (simp add: authorize_checked [OF c] split: sum.splits)
    qed
  qed
  have p4: "\<forall>c email password d. credentials = Some c \<and> c_email c = Val email
         \<and> c_password c = Val password \<and> findOne env email = Inr (Some d)
         \<and> compare env password (db_password d) = Inr False
         \<longrightarrow> snd (authorize env credentials) = Inr None"
  proof (intro allI impI)
    fix c email password d
    assume a: "credentials = Some c \<and> c_email c = Val email
         \<and> c_password c = Val password \<and> findOne env email = Inr (Some d)
         \<and> compare env password (db_password d) = Inr False"
    show "snd (authorize env credentials) = Inr None"
    proof (cases "credentialsMissing credentials")
      case True
      with p2 show ?thesis by blast
    next
      case False
      then obtain c' email' password' where c: "credentials = Some c'" "c_email c' = Val email'"
        "email' \<noteq> []" "c_password c' = Val password'" "password' \<noteq> []"
        using authorize_try_present [of credentials] by metis
      with a have "findOne env email' = Inr (Some d)"
        "compare env password' (db_password d) = Inr False" by simp_all
      then show ?thesis
        by (simp add: authorize_checked [OF c] split: sum.splits)
    qed
  qed
  have p5: "\<forall>e. authorize_try env credentials = Inl e
         \<longrightarrow> snd (authorize env credentials) = Inr None"
    by (simp add: authorize_outcome)
  have p6: "\<forall>e. dbConnect env = Inl e \<longrightarrow> snd (authorize env credentials) = Inr None"
  proof (intro allI impI)
    fix e
    assume a: "dbConnect env = Inl e"
    show "snd (authorize env credentials) = Inr None"
    proof (cases "credentialsMissing credentials")
      case True
      with p2 show ?thesis by blast
    next
      case False
      then obtain c' email' password' where c: "credentials = Some c'" "c_email c' = Val email'"
        "email' \<noteq> []" "c_password c' = Val password'" "password' \<noteq> []"
        using authorize_try_present [of credentials] by metis
      from a show ?thesis
        by (simp add: authorize_checked [OF c])
    qed
  qed
  have p7: "\<forall>c email e. credentials = Some c \<and> c_email c = Val email \<and> findOne env email = Inl e
         \<longrightarrow> snd (authorize env credentials) = Inr None"
  proof (intro allI impI)
    fix c email e
    assume a: "credentials = Some c \<and> c_email c = Val email \<and> findOne env email = Inl e"
    show "snd (authorize env credentials) = Inr None"
    proof (cases "credentialsMissing credentials")
      case True
      with p2 show ?thesis by blast
    next
      case False
      then obtain c' email' password where c: "credentials = Some c'" "c_email c' = Val email'"
        "email' \<noteq> []" "c_password c' = Val password" "password \<noteq> []"
        using authorize_try_present [of credentials] by metis
      with a have "findOne env email' = Inl e" by simp
      then show ?thesis
        by (simp add: authorize_checked [OF c] split: sum.splits)
    qed
  qed
  have p8: "\<forall>c email password d e. credentials = Some c \<and> c_email c = Val email
         \<and> c_password c = Val password \<and> findOne env email = Inr (Some d)
         \<and> compare env password (db_password d) = Inl e
         \<longrightarrow> snd (authorize env credentials) = Inr None"
  proof (intro allI impI)
    fix c email password d e
    assume a: "credentials = Some c \<and> c_email c = Val email
         \<and> c_password c = Val password \<and> findOne env email = Inr (Some d)
         \<and> compare env password (db_password d) = Inl e"
    show "snd (authorize env credentials) = Inr None"
    proof (cases "credentialsMissing credentials")
      case True
      with p2 show ?thesis by blast
    next
      case False
      then obtain c' email' password' where c: "credentials = Some c'" "c_email c' = Val email'"
        "email' \<noteq> []" "c_password c' = Val password'" "password' \<noteq> []"
        using authorize_try_present [of credentials] by metis
      with a have "findOne env email' = Inr (Some d)"
        "compare env password' (db_password d) = Inl e" by simp_all
      then show ?thesis
        by (simp add: authorize_checked [OF c] split: sum.splits)
    qed
  qed
  have p9: "\<forall>c email d e. credentials = Some c \<and> c_email c = Val email
         \<and> findOne env email = Inr (Some d) \<and> toString env (db_id d) = Inl e
         \<longrightarrow> snd (authorize env credentials) = Inr None"
  proof (intro allI impI)
    fix c email d e
    assume a: "credentials = Some c \<and> c_email c = Val email
         \<and> findOne env email = Inr (Some d) \<and> toString env (db_id d) = Inl e"
    show "snd (authorize env credentials) = Inr None"
    proof (cases "credentialsMissing credentials")
      case True
      with p2 show ?thesis by blast
    next
      case False
      then obtain c' email' password where c: "credentials = Some c'" "c_email c' = Val email'"
        "email' \<noteq> []" "c_password c' = Val password" "password \<noteq> []"
        using authorize_try_present [of credentials] by metis
      with a have "findOne env email' = Inr (Some d)" "toString env (db_id d) = Inl e"
        by simp_all
      then show ?thesis
        by (simp add: authorize_checked [OF c] split: sum.splits)
    qed
  qed
  have p10: "\<forall>c email password d rendered. credentials = Some c
         \<and> c_email c = Val email \<and> email \<noteq> []
         \<and> c_password c = Val password \<and> password \<noteq> []
         \<and> dbConnect env = Inr ()
         \<and> findOne env email = Inr (Some d)
         \<and> compare env password (db_password d) = Inr True
         \<and> toString env (db_id d) = Inr rendered
         \<longrightarrow> authorize env credentials =
               ([], Inr (Some
                  \<lparr> u_id = Val rendered,
                    u_name = db_name d,
                    u_email = db_email d,
                    u_role = db_role d,
                    u_profileComplete = db_profileComplete d,
                    u_image = (case db_profilePicture d of
                                 Val p \<Rightarrow> if p = [] then Null else Val p
                               | _ \<Rightarrow> Null) \<rparr>))"
  proof (intro allI impI)
    fix c email password d rendered
    assume a: "credentials = Some c
         \<and> c_email c = Val email \<and> email \<noteq> []
         \<and> c_password c = Val password \<and> password \<noteq> []
         \<and> dbConnect env = Inr ()
         \<and> findOne env email = Inr (Some d)
         \<and> compare env password (db_password d) = Inr True
         \<and> toString env (db_id d) = Inr rendered"
    then have c: "credentials = Some c" "c_email c = Val email" "email \<noteq> []"
      "c_password c = Val password" "password \<noteq> []"
      and ok: "dbConnect env = Inr ()" "findOne env email = Inr (Some d)"
        "compare env password (db_password d) = Inr True"
        "toString env (db_id d) = Inr rendered"
      by blast+
    have "authorize_try env credentials = Inr (Some
                  \<lparr> u_id = Val rendered,
                    u_name = db_name d,
                    u_email = db_email d,
                    u_role = db_role d,
                    u_profileComplete = db_profileComplete d,
                    u_image = orNull (db_profilePicture d) \<rparr>)"
      unfolding authorize_try_checked [OF c] by (simp add: ok)
    then show "authorize env credentials =
               ([], Inr (Some
                  \<lparr> u_id = Val rendered,
                    u_name = db_name d,
                    u_email = db_email d,
                    u_role = db_role d,
                    u_profileComplete = db_profileComplete d,
                    u_image = (case db_profilePicture d of
                                 Val p \<Rightarrow> if p = [] then Null else Val p
                               | _ \<Rightarrow> Null) \<rparr>))"
      by (simp add: authorize_def orNull_cases)
  qed
  have p11: "\<forall>u. snd (authorize env credentials) = Inr (Some u) \<longrightarrow>
         (\<exists>c email password d rendered. credentials = Some c \<and> c_email c = Val email
            \<and> c_password c = Val password \<and> email \<noteq> [] \<and> password \<noteq> []
            \<and> dbConnect env = Inr ()
            \<and> findOne env email = Inr (Some d)
            \<and> compare env password (db_password d) = Inr True
            \<and> toString env (db_id d) = Inr rendered
            \<and> u = \<lparr> u_id = Val rendered,
                    u_name = db_name d,
                    u_email = db_email d,
                    u_role = db_role d,
                    u_profileComplete = db_profileComplete d,
                    u_image = (case db_profilePicture d of
                                 Val p \<Rightarrow> if p = [] then Null else Val p
                               | _ \<Rightarrow> Null) \<rparr>)"
  proof (intro allI impI)
    fix u
    assume "snd (authorize env credentials) = Inr (Some u)"
    then have t: "authorize_try env credentials = Inr (Some u)"
      by (simp add: authorize_outcome split: sum.splits)
    then have "\<not> credentialsMissing credentials"
      by (auto simp: authorize_try_missing)
    then obtain c email password where c: "credentials = Some c" "c_email c = Val email"
      "email \<noteq> []" "c_password c = Val password" "password \<noteq> []"
      using authorize_try_present [of credentials] by metis
    from t [unfolded authorize_try_checked [OF c]]
    obtain d rendered where "dbConnect env = Inr ()" "findOne env email = Inr (Some d)"
      "compare env password (db_password d) = Inr True"
      "toString env (db_id d) = Inr rendered"
      "u = \<lparr> u_id = Val rendered, u_name = db_name d, u_email = db_email d,
             u_role = db_role d, u_profileComplete = db_profileComplete d,
             u_image = orNull (db_profilePicture d) \<rparr>"
      by (auto split: sum.splits option.splits if_splits)
    with c show "\<exists>c email password d rendered. credentials = Some c \<and> c_email c = Val email
            \<and> c_password c = Val password \<and> email \<noteq> [] \<and> password \<noteq> []
            \<and> dbConnect env = Inr ()
            \<and> findOne env email = Inr (Some d)
            \<and> compare env password (db_password d) = Inr True
            \<and> toString env (db_id d) = Inr rendered
            \<and> u = \<lparr> u_id = Val rendered,
                    u_name = db_name d,
                    u_email = db_email d,
                    u_role = db_role d,
                    u_profileComplete = db_profileComplete d,
                    u_image = (case db_profilePicture d of
                                 Val p \<Rightarrow> if p = [] then Null else Val p
                               | _ \<Rightarrow> Null) \<rparr>"
      unfolding orNull_cases by blast
  qed
  from p1 p2 p3 p4 p5 p6 p7 p8 p9 p10 p11 show ?thesis
    by (intro conjI)
qed

theorem authorize_user_or_null_witness:
  "credentialsMissing (Some \<lparr>c_email = Val ''a@b.c'', c_password = Val []\<rparr>)
   \<and> snd (authorize sampleEnv (Some \<lparr>c_email = Val ''a@b.c'', c_password = Val []\<rparr>)) = Inr None
   \<and> findOne sampleEnv ''x@y.z'' = Inr None
   \<and> snd (authorize sampleEnv (Some \<lparr>c_email = Val ''x@y.z'', c_password = Val ''pw''\<rparr>)) = Inr None
   \<and> compare sampleEnv ''bad'' (db_password sampleDbUser) = Inr False
   \<and> snd (authorize sampleEnv (Some \<lparr>c_email = Val ''a@b.c'', c_password = Val ''bad''\<rparr>)) = Inr None
   \<and> authorize_try (sampleEnv\<lparr>dbConnect := Inl ''down''\<rparr>)
        (Some \<lparr>c_email = Val ''a@b.c'', c_password = Val ''pw''\<rparr>) = Inl ''down''
   \<and> snd (authorize (sampleEnv\<lparr>dbConnect := Inl ''down''\<rparr>)
        (Some \<lparr>c_email = Val ''a@b.c'', c_password = Val ''pw''\<rparr>)) = Inr None
   \<and> findOne (sampleEnv\<lparr>findOne := \<lambda>e. Inl ''timeout''\<rparr>) ''a@b.c'' = Inl ''timeout''
   \<and> snd (authorize (sampleEnv\<lparr>findOne := \<lambda>e. Inl ''timeout''\<rparr>)
        (Some \<lparr>c_email = Val ''a@b.c'', c_password = Val ''pw''\<rparr>)) = Inr None
   \<and> compare (sampleEnv\<lparr>compare := \<lambda>p h. Inl ''bad hash''\<rparr>) ''pw'' (db_password sampleDbUser)
        = Inl ''bad hash''
   \<and> snd (authorize (sampleEnv\<lparr>compare := \<lambda>p h. Inl ''bad hash''\<rparr>)
        (Some \<lparr>c_email = Val ''a@b.c'', c_password = Val ''pw''\<rparr>)) = Inr None
   \<and> toString (sampleEnv\<lparr>toString := \<lambda>n. Inl ''no id''\<rparr>) (db_id sampleDbUser) = Inl ''no id''
   \<and> snd (authorize (sampleEnv\<lparr>toString := \<lambda>n. Inl ''no id''\<rparr>)
        (Some \<lparr>c_email = Val ''a@b.c'', c_password = Val ''pw''\<rparr>)) = Inr None
   \<and> authorize sampleEnv (Some \<lparr>c_email = Val ''a@b.c'', c_password = Val ''pw''\<rparr>)
        = ([], Inr (Some \<lparr> u_id = Val ''fffffff'', u_name = Val ''Ann'', u_email = Val ''a@b.c'',
                           u_role = Val Vendor, u_profileComplete = Val True, u_image = Null \<rparr>))
   \<and> authorize sampleEnv (Some \<lparr>c_email = Val ''b@b.c'', c_password = Val ''pw2''\<rparr>)
        = ([], Inr (Some \<lparr> u_id = Val ''fff'', u_name = Val ''Bob'', u_email = Val ''b@b.c'',
                           u_role = Val Organizer, u_profileComplete = Val False,
                           u_image = Val ''/img/bob.png'' \<rparr>))"
proof -
  let ?good = "Some \<lparr>c_email = Val ''a@b.c'', c_password = Val ''pw''\<rparr>"
  let ?bob = "Some \<lparr>c_email = Val ''b@b.c'', c_password = Val ''pw2''\<rparr>"
  let ?empty = "Some \<lparr>c_email = Val ''a@b.c'', c_password = Val []\<rparr>"
  let ?unknown = "Some \<lparr>c_email = Val ''x@y.z'', c_password = Val ''pw''\<rparr>"
  let ?wrong = "Some \<lparr>c_email = Val ''a@b.c'', c_password = Val ''bad''\<rparr>"
  let ?down = "sampleEnv\<lparr>dbConnect := Inl ''down''\<rparr>"
  let ?lost = "sampleEnv\<lparr>findOne := \<lambda>e. Inl ''timeout''\<rparr>"
  let ?hash = "sampleEnv\<lparr>compare := \<lambda>p h. Inl ''bad hash''\<rparr>"
  let ?noid = "sampleEnv\<lparr>toString := \<lambda>n. Inl ''no id''\<rparr>"
  note missing = authorize_user_or_null [THEN conjunct2, THEN conjunct1, rule_format]
  note unknown = authorize_user_or_null
    [THEN conjunct2, THEN conjunct2, THEN conjunct1, rule_format]
  note mismatch = authorize_user_or_null
    [THEN conjunct2, THEN conjunct2, THEN conjunct2, THEN conjunct1, rule_format]
  note raised = authorize_user_or_null
    [THEN conjunct2, THEN conjunct2, THEN conjunct2, THEN conjunct2, THEN conjunct1,
     rule_format]
  note findRaised = authorize_user_or_null
    [THEN conjunct2, THEN conjunct2, THEN conjunct2, THEN conjunct2, THEN conjunct2,
     THEN conjunct2, THEN conjunct1, rule_format]
  note compareRaised = authorize_user_or_null
    [THEN conjunct2, THEN conjunct2, THEN conjunct2, THEN conjunct2, THEN conjunct2,
     THEN conjunct2, THEN conjunct2, THEN conjunct1, rule_format]
  note renderRaised = authorize_user_or_null
    [THEN conjunct2, THEN conjunct2, THEN conjunct2, THEN conjunct2, THEN conjunct2,
     THEN conjunct2, THEN conjunct2, THEN conjunct2, THEN conjunct1, rule_format]
  note succeeds = authorize_user_or_null
    [THEN conjunct2, THEN conjunct2, THEN conjunct2, THEN conjunct2, THEN conjunct2,
     THEN conjunct2, THEN conjunct2, THEN conjunct2, THEN conjunct2, THEN conjunct1,
     rule_format]
  have h1: "credentialsMissing ?empty"
    by (simp add: credentialsMissing_def)
  have r1: "snd (authorize sampleEnv ?empty) = Inr None"
    using h1 by (rule missing)
  have h2: "findOne sampleEnv ''x@y.z'' = Inr None"
    by (simp add: sampleEnv_def)
  have r2: "snd (authorize sampleEnv ?unknown) = Inr None"
    by (rule unknown [where c = "\<lparr>c_email = Val ''x@y.z'', c_password = Val ''pw''\<rparr>"
          and email = "''x@y.z''"]) (simp add: h2)
  have h3: "findOne sampleEnv ''a@b.c'' = Inr (Some sampleDbUser)"
    "compare sampleEnv ''bad'' (db_password sampleDbUser) = Inr False"
    by (simp_all add: sampleEnv_def sampleDbUser_def)
  have r3: "snd (authorize sampleEnv ?wrong) = Inr None"
    by (rule mismatch [where c = "\<lparr>c_email = Val ''a@b.c'', c_password = Val ''bad''\<rparr>"
          and email = "''a@b.c''" and password = "''bad''" and d = sampleDbUser])
      (simp add: h3)
  have h4: "authorize_try ?down ?good = Inl ''down''"
    by (simp add: authorize_try_def credentialsMissing_def sampleEnv_def)
  have r4: "snd (authorize ?down ?good) = Inr None"
    using h4 by (rule raised)
  have h7: "findOne ?lost ''a@b.c'' = Inl ''timeout''"
    by simp
  have r7: "snd (authorize ?lost ?good) = Inr None"
    by (rule findRaised [where c = "\<lparr>c_email = Val ''a@b.c'', c_password = Val ''pw''\<rparr>"
          and email = "''a@b.c''" and e = "''timeout''"]) (simp add: h7)
  have h8: "findOne ?hash ''a@b.c'' = Inr (Some sampleDbUser)"
    "compare ?hash ''pw'' (db_password sampleDbUser) = Inl ''bad hash''"
    by (simp_all add: sampleEnv_def)
  have r8: "snd (authorize ?hash ?good) = Inr None"
    by (rule compareRaised [where c = "\<lparr>c_email = Val ''a@b.c'', c_password = Val ''pw''\<rparr>"
          and email = "''a@b.c''" and password = "''pw''" and d = sampleDbUser
          and e = "''bad hash''"])
      (simp add: h3(1))
  have h9: "findOne ?noid ''a@b.c'' = Inr (Some sampleDbUser)"
    "toString ?noid (db_id sampleDbUser) = Inl ''no id''"
    by (simp_all add: sampleEnv_def)
  have r9: "snd (authorize ?noid ?good) = Inr None"
    by (rule renderRaised [where c = "\<lparr>c_email = Val ''a@b.c'', c_password = Val ''pw''\<rparr>"
          and email = "''a@b.c''" and d = sampleDbUser and e = "''no id''"])
      (simp add: h3(1))
  have ann: "dbConnect sampleEnv = Inr ()"
    "compare sampleEnv ''pw'' (db_password sampleDbUser) = Inr True"
    "toString sampleEnv (db_id sampleDbUser) = Inr ''fffffff''"
    by (simp_all add: sampleEnv_def sampleDbUser_def eval_nat_numeral)
  have "authorize sampleEnv ?good
      = ([], Inr (Some \<lparr> u_id = Val ''fffffff'', u_name = db_name sampleDbUser,
            u_email = db_email sampleDbUser, u_role = db_role sampleDbUser,
            u_profileComplete = db_profileComplete sampleDbUser,
            u_image = (case db_profilePicture sampleDbUser of
                         Val p \<Rightarrow> if p = [] then Null else Val p
                       | _ \<Rightarrow> Null) \<rparr>))"
    by (rule succeeds [where c = "\<lparr>c_email = Val ''a@b.c'', c_password = Val ''pw''\<rparr>"
          and email = "''a@b.c''" and password = "''pw''" and d = sampleDbUser])
      (simp add: h3(1) ann)
  then have r10: "authorize sampleEnv ?good
      = ([], Inr (Some \<lparr> u_id = Val ''fffffff'', u_name = Val ''Ann'', u_email = Val ''a@b.c'',
                         u_role = Val Vendor, u_profileComplete = Val True, u_image = Null \<rparr>))"
    by (simp add: sampleDbUser_def)
  have bob: "findOne sampleEnv ''b@b.c'' = Inr (Some sampleDbUser2)"
    "compare sampleEnv ''pw2'' (db_password sampleDbUser2) = Inr True"
    "toString sampleEnv (db_id sampleDbUser2) = Inr ''fff''"
    by (simp_all add: sampleEnv_def sampleDbUser2_def eval_nat_numeral)
  have "authorize sampleEnv ?bob
      = ([], Inr (Some \<lparr> u_id = Val ''fff'', u_name = db_name sampleDbUser2,
            u_email = db_email sampleDbUser2, u_role = db_role sampleDbUser2,
            u_profileComplete = db_profileComplete sampleDbUser2,
            u_image = (case db_profilePicture sampleDbUser2 of
                         Val p \<Rightarrow> if p = [] then Null else Val p
                       | _ \<Rightarrow> Null) \<rparr>))"
    by (rule succeeds [where c = "\<lparr>c_email = Val ''b@b.c'', c_password = Val ''pw2''\<rparr>"
          and email = "''b@b.c''" and password = "''pw2''" and d = sampleDbUser2])
      (simp add: bob ann(1))
  then have r11: "authorize sampleEnv ?bob
      = ([], Inr (Some \<lparr> u_id = Val ''fff'', u_name = Val ''Bob'', u_email = Val ''b@b.c'',
                         u_role = Val Organizer, u_profileComplete = Val False,
                         u_image = Val ''/img/bob.png'' \<rparr>))"
    by (simp add: sampleDbUser2_def)
  show ?thesis
    by (intro conjI) (fact h1 r1 h2 r2 h3(2) r3 h4 r4 h7 r7 h8(2) r8 h9(2) r9 r10 r11)+
qed

text \<open>
  C10. The jwt callback returns the token as it is when no user is passed. The session
  callback returns the session with the id, role and profileComplete of its user taken
  from the token; the user's name, email, image and other properties, and the session's
  other properties, stay as they were. A session without a user comes back as it is.
\<close>

theorem callbacks_frame:
  "jwt token None = token
   \<and> session None token = None
   \<and> session (Some (s\<lparr>user := None\<rparr>)) token = Some (s\<lparr>user := None\<rparr>)
   \<and> (\<exists>u'. session (Some (s\<lparr>user := Some u\<rparr>)) token = Some (s\<lparr>user := Some u'\<rparr>)
        \<and> s_id u' = t_id token \<and> s_role u' = t_role token
        \<and> s_profileComplete u' = t_profileComplete token
        \<and> s_name u' = s_name u \<and> s_email u' = s_email u \<and> s_image u' = s_image u
        \<and> SessionUser.more u' = SessionUser.more u)"
proof (intro conjI)
  show "jwt token None = token"
    by (simp add: jwt_def)
  show "session None token = None"
    by (simp add: session_def)
  show "session (Some (s\<lparr>user := None\<rparr>)) token = Some (s\<lparr>user := None\<rparr>)"
    by (simp add: session_def)
  let ?u' = "u\<lparr>s_id := t_id token, s_role := t_role token,
               s_profileComplete := t_profileComplete token\<rparr>"
  show "\<exists>u'. session (Some (s\<lparr>user := Some u\<rparr>)) token = Some (s\<lparr>user := Some u'\<rparr>)
        \<and> s_id u' = t_id token \<and> s_role u' = t_role token
        \<and> s_profileComplete u' = t_profileComplete token
        \<and> s_name u' = s_name u \<and> s_email u' = s_email u \<and> s_image u' = s_image u
        \<and> SessionUser.more u' = SessionUser.more u"
    by (rule exI [where x = ?u']) (simp add: session_def)
qed

text \<open>
  C4. While the event's configurationComplete is false (or no event is loaded),
  \<open>handlePublish\<close> rejects the publication: it sends no request, so nothing it does
  can move the event from draft to published; it pushes no route, leaves the event as
  it was and stores the message asking to complete the stall configuration. The
  organizer's publish button, whenever it is rendered, is disabled.
\<close>

theorem publish_needs_configuration:
  assumes "\<not> eventConfigurationComplete (event st)"
  shows "requests (handlePublish eventId reply st) = []
     \<and> pushed (handlePublish eventId reply st) = []
     \<and> error (component (handlePublish eventId reply st))
         = Some ''Please complete stall configuration before publishing''
     \<and> event (component (handlePublish eventId reply st)) = event st
     \<and> (\<forall>b. publishButton isOrganizer st = Some b \<longrightarrow> disabled b)"
  using assms
  by (auto simp: handlePublish_def publish_try_def publishButton_def eventConfigurationComplete_def
      split: option.splits if_splits)

theorem publish_needs_configuration_witness:
  "\<not> eventConfigurationComplete
        (event (sampleState\<lparr>event := Some (sampleEvent\<lparr>configurationComplete := False\<rparr>)\<rparr>))
   \<and> publishButton True (sampleState\<lparr>event := Some (sampleEvent\<lparr>configurationComplete := False\<rparr>)\<rparr>)
        = Some \<lparr>label = ''Publish Event'', disabled = True\<rparr>
   \<and> disabled \<lparr>label = ''Publish Event'', disabled = True\<rparr>
   \<and> requests (handlePublish ''e1'' (Response True (JsonData Undefined))
        (sampleState\<lparr>event := Some (sampleEvent\<lparr>configurationComplete := False\<rparr>)\<rparr>)) = []
   \<and> error (component (handlePublish ''e1'' (Response True (JsonData Undefined))
        (sampleState\<lparr>event := Some (sampleEvent\<lparr>configurationComplete := False\<rparr>)\<rparr>)))
        = Some ''Please complete stall configuration before publishing''"
proof -
  let ?st = "sampleState\<lparr>event := Some (sampleEvent\<lparr>configurationComplete := False\<rparr>)\<rparr>"
  let ?b = "\<lparr>label = ''Publish Event'', disabled = True\<rparr>"
  have h: "\<not> eventConfigurationComplete (event ?st)"
    by (simp add: eventConfigurationComplete_def sampleState_def sampleEvent_def)
  have b: "publishButton True ?st = Some ?b"
    by (simp add: publishButton_def sampleState_def sampleEvent_def)
  note t = publish_needs_configuration
    [OF h, of "''e1''" "Response True (JsonData Undefined)" True]
  from t b have "disabled ?b" by blast
  with t h b show ?thesis by blast
qed

lemma lookupRecord_stallId: "lookupRecord ledger sid = Some r \<Longrightarrow> stallId r = sid"
  by (auto simp: lookupRecord_def find_Some_iff)

lemma lookupRecord_storeRecord:
  "lookupRecord ledger (stallId r') \<noteq> None \<Longrightarrow>
   lookupRecord (storeRecord ledger r') (stallId r') = Some r'"
  unfolding lookupRecord_def storeRecord_def
  by (induction ledger) auto

text \<open>
  C6. \<open>confirmHold\<close> calls the payment collaborator only for a record that is held by
  the vendor and whose expiresAt is still ahead; and when the collaborator reports
  failure, the run ends with PaymentFailed and the stall's record available again,
  with no holder.
\<close>

theorem confirmHold_checks_then_pays:
  "(paymentCalls (confirmHold env ledger sid vendorId paymentReference now) \<noteq> [] \<longrightarrow>
      (\<exists>r t. lookupRecord ledger sid = Some r \<and> state r = Held \<and> holderId r = Some vendorId
         \<and> expiresAt r = Some t \<and> now < t))
   \<and> (paymentCalls (confirmHold env ledger sid vendorId paymentReference now) \<noteq> []
        \<and> \<not> pay env paymentReference (priceOf env sid) \<longrightarrow>
      outcome (confirmHold env ledger sid vendorId paymentReference now) = Inl PaymentFailed
      \<and> (\<exists>r'. lookupRecord (ledgerAfter (confirmHold env ledger sid vendorId paymentReference now)) sid = Some r'
            \<and> state r' = Available \<and> holderId r' = None))"
proof -
  let ?run = "confirmHold env ledger sid vendorId paymentReference now"
  have checked: "\<exists>r t. lookupRecord ledger sid = Some r \<and> state r = Held
      \<and> holderId r = Some vendorId \<and> expiresAt r = Some t \<and> now < t"
    if "paymentCalls ?run \<noteq> []"
    using that
    by (auto simp: confirmHold_def Let_def split: option.splits if_splits sum.splits)
  have released: "outcome ?run = Inl PaymentFailed
      \<and> (\<exists>r'. lookupRecord (ledgerAfter ?run) sid = Some r'
            \<and> state r' = Available \<and> holderId r' = None)"
    if calls: "paymentCalls ?run \<noteq> []" and failed: "\<not> pay env paymentReference (priceOf env sid)"
  proof -
    from checked [OF calls] obtain r t where r: "lookupRecord ledger sid = Some r"
      "state r = Held" "holderId r = Some vendorId" "expiresAt r = Some t" "now < t"
      by blast
    let ?r' = "r\<lparr> state := Available, holderId := None, version := Suc (version r) \<rparr>"
    have sid: "stallId r = sid" using r(1) by (rule lookupRecord_stallId)
    have tt: "tryTransition (holdTtl env) ledger sid Held Available vendorId now (version r)
        = Inr (?r', storeRecord ledger ?r')"
      using r by (simp add: tryTransition_def transition_def)
    have run: "?run = \<lparr> outcome = Inl PaymentFailed, ledgerAfter = storeRecord ledger ?r',
            paymentCalls = [(paymentReference, priceOf env sid)] \<rparr>"
      using r failed tt by (simp add: confirmHold_def Let_def)
    have "lookupRecord (storeRecord ledger ?r') (stallId ?r') = Some ?r'"
      by (rule lookupRecord_storeRecord) (simp add: sid r)
    then have "lookupRecord (storeRecord ledger ?r') sid = Some ?r'"
      by (simp add: sid)
    with run show ?thesis by simp
  qed
  from checked released show ?thesis by blast
qed

theorem confirmHold_checks_then_pays_witness:
  "paymentCalls (confirmHold sampleBookingEnv sampleLedger 1 5 ''ref'' 200) = [(''ref'', 50)]
   \<and> \<not> pay sampleBookingEnv ''ref'' (priceOf sampleBookingEnv 1)
   \<and> outcome (confirmHold sampleBookingEnv sampleLedger 1 5 ''ref'' 200) = Inl PaymentFailed
   \<and> (\<exists>r'. lookupRecord (ledgerAfter (confirmHold sampleBookingEnv sampleLedger 1 5 ''ref'' 200)) 1
              = Some r' \<and> state r' = Available \<and> holderId r' = None)
   \<and> (\<exists>r t. lookupRecord sampleLedger 1 = Some r \<and> state r = Held \<and> holderId r = Some 5
         \<and> expiresAt r = Some t \<and> 200 < t)"
proof -
  have calls: "paymentCalls (confirmHold sampleBookingEnv sampleLedger 1 5 ''ref'' 200)
      = [(''ref'', 50)]"
    by (simp add: confirmHold_def lookupRecord_def sampleLedger_def sampleBookingEnv_def
        tryTransition_def transition_def Let_def)
  have failed: "\<not> pay sampleBookingEnv ''ref'' (priceOf sampleBookingEnv 1)"
    by (simp add: sampleBookingEnv_def)
  from confirmHold_checks_then_pays [of sampleBookingEnv sampleLedger 1 5 "''ref''" 200]
    calls failed
  show ?thesis by simp
qed









lemma length_progress_stepCall:
  "length (progress (stepCall policy ttl layout calls race turn)) = length (progress race)"
  by (auto simp: stepCall_def split: prod.splits CallState.splits sum.splits)

lemma length_progress_run:
  "length (progress (runSchedule policy ttl layout calls schedule race)) = length (progress race)"
  unfolding runSchedule_def
  by (induction schedule arbitrary: race) (simp_all add: length_progress_stepCall)



















lemma requestHold_in_two_steps:
  assumes "i < length calls" and "length (progress race) = length calls"
    and "progress race ! i = Pending"
  shows "stepCall policy ttl layout calls (stepCall policy ttl layout calls race (i, t)) (i, now)
     = \<lparr> ledgerNow = snd (requestHold policy ttl layout (ledgerNow race) (calls ! i) now),
         progress = (progress race)
           [i := Returned (fst (requestHold policy ttl layout (ledgerNow race) (calls ! i) now))] \<rparr>"
proof (cases "requestHold_check policy layout (ledgerNow race) (calls ! i)")
  case (Inl e)
  with assms show ?thesis
    by (simp add: stepCall_def requestHold_def)
next
  case (Inr known)
  with assms show ?thesis
    by (simp add: stepCall_def requestHold_def split: prod.splits)
qed




end
